theory Spec2Isabelle
  imports Complex_Main "HOL-Library.Char_ord" "HOL-Library.List_Lexorder"
begin

section \<open>Values of the interpreter\<close>

text \<open>
  The program reads JSON bodies with \<^verbatim>\<open>r.json()\<close> and works on the parsed objects
  with subscripts, \<^verbatim>\<open>float\<close>, \<^verbatim>\<open>int\<close>, \<^verbatim>\<open>sorted\<close> and f-strings. A parsed body
  is a value of \<open>json\<close>; Python's \<^verbatim>\<open>None\<close> is \<open>JNull\<close>. A dict is an association list
  read with \<open>map_of\<close> (a parsed body holds every key once). Strings are byte lists.

  A Python float is a \<open>pyfloat\<close>: the two infinities, NaN, or a finite value kept as the
  exact rational it denotes. Rounding of the mantissa to binary64, underflow and the sign
  of zero are not represented; comparison of two floats is comparison of their values, so every
  statement below about \<^verbatim>\<open><\<close> and \<^verbatim>\<open>>\<close> on temperatures is the interpreter's.
\<close>

datatype pyfloat = NegInf | Finite rat | PosInf | NaN

datatype json =
    JNull
  | JBool bool
  | JInt int
  | JFloat pyfloat
  | JStr string
  | JArr "json list"
  | JObj "(string \<times> json) list"

text \<open>
  Exceptions are values. \<open>Unmodelled\<close> is not a Python exception: it marks the inputs on
  which the interpreter's behaviour depends on machinery that is not written out here
  (the \<^verbatim>\<open>repr\<close> of floats and containers, the comparison sequence of the sort on keys
  that are not strings, Unicode digits and spaces, the limit on integer string
  conversion). No \<^verbatim>\<open>except\<close> catches it.
\<close>

datatype py_error =
    KeyError
  | IndexError
  | TypeError
  | ValueError
  | OverflowError
  | JSONDecodeError
  | RequestException
  | Unmodelled

subsection \<open>Comparison of floats\<close>

fun float_lt :: "pyfloat \<Rightarrow> pyfloat \<Rightarrow> bool" where
  "float_lt NaN _ = False"
| "float_lt _ NaN = False"
| "float_lt NegInf NegInf = False"
| "float_lt NegInf _ = True"
| "float_lt (Finite a) (Finite b) = (a < b)"
| "float_lt (Finite a) PosInf = True"
| "float_lt (Finite a) NegInf = False"
| "float_lt PosInf _ = False"

definition float_gt :: "pyfloat \<Rightarrow> pyfloat \<Rightarrow> bool" where
  "float_gt a b = float_lt b a"


subsection \<open>Subscripts\<close>

text \<open>
  \<^verbatim>\<open>x["k"]\<close>: a dict gives the value or raises KeyError; every other parsed value raises
  TypeError (a list or a string wants an integer index, the rest is not subscriptable).
\<close>

fun subscript :: "json \<Rightarrow> string \<Rightarrow> py_error + json" where
  "subscript (JObj kvs) k = (case map_of kvs k of None \<Rightarrow> Inl KeyError | Some v \<Rightarrow> Inr v)"
| "subscript _ k = Inl TypeError"

text \<open>
  \<^verbatim>\<open>x[0]\<close>: the first element of a list, the first character of a string (IndexError when
  empty); a parsed dict has string keys only, so the integer key is missing; the rest is
  not subscriptable.
\<close>

fun index0 :: "json \<Rightarrow> py_error + json" where
  "index0 (JArr []) = Inl IndexError"
| "index0 (JArr (x # xs)) = Inr x"
| "index0 (JStr []) = Inl IndexError"
| "index0 (JStr (c # cs)) = Inr (JStr [c])"
| "index0 (JObj kvs) = Inl KeyError"
| "index0 _ = Inl TypeError"

subsection \<open>Reading numbers from strings\<close>

definition is_ascii :: "string \<Rightarrow> bool" where
  "is_ascii s = (\<forall>c \<in> set s. (of_char c :: nat) < 128)"

definition is_space :: "char \<Rightarrow> bool" where
  "is_space c = (let n = (of_char c :: nat) in (9 \<le> n \<and> n \<le> 13) \<or> (28 \<le> n \<and> n \<le> 32))"

definition is_digit :: "char \<Rightarrow> bool" where
  "is_digit c = (let n = (of_char c :: nat) in 48 \<le> n \<and> n \<le> 57)"

definition strip :: "string \<Rightarrow> string" where
  "strip s = rev (dropWhile is_space (rev (dropWhile is_space s)))"

definition lower :: "string \<Rightarrow> string" where
  "lower s = map (\<lambda>c. let n = (of_char c :: nat) in
                       if 65 \<le> n \<and> n \<le> 90 then char_of (n + 32) else c) s"

text \<open>
  The longest prefix of the form digit (\<^verbatim>\<open>_\<close>? digit)*, returned without its underscores,
  and what follows it.
\<close>

fun digitpart :: "string \<Rightarrow> string \<times> string" where
  "digitpart [] = ([], [])"
| "digitpart [c] = (if is_digit c then ([c], []) else ([], [c]))"
| "digitpart (c # u # r) =
     (if \<not> is_digit c then ([], c # u # r)
      else if u = CHR ''_'' \<and> (case r of [] \<Rightarrow> False | d # _ \<Rightarrow> is_digit d)
           then (case digitpart r of (ds, rest) \<Rightarrow> (c # ds, rest))
           else (case digitpart (u # r) of (ds, rest) \<Rightarrow> (c # ds, rest)))"

definition digits_value :: "string \<Rightarrow> nat" where
  "digits_value ds = foldl (\<lambda>n c. 10 * n + (of_char c - 48)) 0 ds"

text \<open>An optional sign: \<open>True\<close> for minus.\<close>

fun take_sign :: "string \<Rightarrow> bool \<times> string" where
  "take_sign [] = (False, [])"
| "take_sign (c # cs) =
     (if c = CHR ''-'' then (True, cs) else if c = CHR ''+'' then (False, cs)
      else (False, c # cs))"

text \<open>
  \<^verbatim>\<open>int(s)\<close> on a string, base 10. Beyond 4300 digits the outcome depends on the
  version and the configuration of the interpreter (the limit on integer string
  conversion).
\<close>

definition int_of_str :: "string \<Rightarrow> py_error + int" where
  "int_of_str s =
     (if \<not> is_ascii s then Inl Unmodelled
      else case take_sign (strip s) of (neg, body) \<Rightarrow>
        (case digitpart body of (ds, rest) \<Rightarrow>
           if ds = [] \<or> rest \<noteq> [] then Inl ValueError
           else if 4300 < length ds then Inl Unmodelled
           else Inr (if neg then - int (digits_value ds) else int (digits_value ds))))"

text \<open>
  The largest magnitude that still rounds to a finite binary64 value is below
  \<open>2 ^ 1024 - 2 ^ 970\<close>; from there on a decimal string reads as an infinity and an
  integer raises OverflowError.
\<close>

definition float_overflow :: rat where
  "float_overflow = 2 ^ 1024 - 2 ^ 970"

definition float_of_rat :: "rat \<Rightarrow> pyfloat" where
  "float_of_rat q =
     (if float_overflow \<le> q then PosInf
      else if q \<le> - float_overflow then NegInf
      else Finite q)"

text \<open>
  \<^verbatim>\<open>float(s)\<close> on a string: surrounding white space, a sign, then \<^verbatim>\<open>inf\<close>,
  \<^verbatim>\<open>infinity\<close> or \<^verbatim>\<open>nan\<close> in any case, or a decimal with an optional fraction and an
  optional exponent.
\<close>

definition exponent_of :: "string \<Rightarrow> (int \<times> string) option" where
  "exponent_of s =
     (case s of
        [] \<Rightarrow> Some (0, [])
      | c # cs \<Rightarrow>
          if c = CHR ''e'' \<or> c = CHR ''E'' then
            (case take_sign cs of (neg, r) \<Rightarrow>
               (case digitpart r of (ds, rest) \<Rightarrow>
                  if ds = [] then None
                  else Some (if neg then - int (digits_value ds) else int (digits_value ds), rest)))
          else Some (0, c # cs))"

definition float_of_str :: "string \<Rightarrow> py_error + pyfloat" where
  "float_of_str s =
     (if \<not> is_ascii s then Inl Unmodelled
      else case take_sign (strip s) of (neg, body) \<Rightarrow>
        if lower body = ''inf'' \<or> lower body = ''infinity'' then Inr (if neg then NegInf else PosInf)
        else if lower body = ''nan'' then Inr NaN
        else (case digitpart body of (ip, r1) \<Rightarrow>
          (case (case r1 of [] \<Rightarrow> ([], []) | c # cs \<Rightarrow>
                   if c = CHR ''.'' then digitpart cs else ([], c # cs)) of (fp, r2) \<Rightarrow>
             if ip = [] \<and> fp = [] then Inl ValueError
             else (case exponent_of r2 of
                     None \<Rightarrow> Inl ValueError
                   | Some (e, r3) \<Rightarrow>
                       if r3 \<noteq> [] then Inl ValueError
                       else
                         (let m = rat_of_nat (digits_value (ip @ fp)) / 10 ^ length fp;
                              v = (if 0 \<le> e then m * 10 ^ nat e else m / 10 ^ nat (- e))
                          in Inr (float_of_rat (if neg then - v else v)))))))"

text \<open>\<^verbatim>\<open>float(x)\<close> on a parsed value.\<close>

fun py_float :: "json \<Rightarrow> py_error + pyfloat" where
  "py_float (JStr s) = float_of_str s"
| "py_float (JFloat x) = Inr x"
| "py_float (JInt i) =
     (if float_overflow \<le> rat_of_int \<bar>i\<bar> then Inl OverflowError else Inr (Finite (rat_of_int i)))"
| "py_float (JBool b) = Inr (Finite (if b then 1 else 0))"
| "py_float _ = Inl TypeError"

text \<open>\<^verbatim>\<open>int(x)\<close> on a parsed value; a float is truncated towards zero.\<close>

fun py_int :: "json \<Rightarrow> py_error + int" where
  "py_int (JStr s) = int_of_str s"
| "py_int (JInt i) = Inr i"
| "py_int (JBool b) = Inr (if b then 1 else 0)"
| "py_int (JFloat (Finite q)) = Inr (if 0 \<le> q then \<lfloor>q\<rfloor> else \<lceil>q\<rceil>)"
| "py_int (JFloat NaN) = Inl ValueError"
| "py_int (JFloat _) = Inl OverflowError"
| "py_int _ = Inl TypeError"

subsection \<open>Rendering\<close>

fun digits :: "nat \<Rightarrow> string" where
  "digits n = (if n < 10 then [char_of (48 + n)]
               else digits (n div 10) @ [char_of (48 + n mod 10)])"

declare digits.simps [simp del]

definition str_of_int :: "int \<Rightarrow> string" where
  "str_of_int i = (if i < 0 then CHR ''-'' # digits (nat (- i)) else digits (nat i))"

text \<open>
  \<^verbatim>\<open>str(x)\<close>, which an f-string field without a format applies. A string is itself;
  the \<^verbatim>\<open>repr\<close> of floats, lists and dicts is not written out.
\<close>

fun py_str :: "json \<Rightarrow> py_error + string" where
  "py_str (JStr s) = Inr s"
| "py_str JNull = Inr ''None''"
| "py_str (JBool b) = Inr (if b then ''True'' else ''False'')"
| "py_str (JInt i) = Inr (str_of_int i)"
| "py_str _ = Inl Unmodelled"



text \<open>
  The field \<^verbatim>\<open>{x:.1f}\<close> on a float: the value rounded to one fractional digit, ties to
  the even digit, with the sign of the value in front.
\<close>

definition round_half_even :: "rat \<Rightarrow> int" where
  "round_half_even x =
     (let f = \<lfloor>x\<rfloor>; d = x - rat_of_int f
      in if d < 1 / 2 then f else if 1 / 2 < d then f + 1
         else if even f then f else f + 1)"

definition format_1f :: "pyfloat \<Rightarrow> string" where
  "format_1f x =
     (case x of
        PosInf \<Rightarrow> ''inf''
      | NegInf \<Rightarrow> ''-inf''
      | NaN \<Rightarrow> ''nan''
      | Finite q \<Rightarrow>
          (let t = nat (round_half_even (\<bar>q\<bar> * 10))
           in (if q < 0 then ''-'' else []) @ digits (t div 10) @ ''.'' @ digits (t mod 10)))"

section \<open>The world outside and the effects of a run\<close>

text \<open>
  \<^verbatim>\<open>StationTemp = namedtuple("StationTemp", ["key", "name", "temp", "station"])\<close>.
  The fields \<open>key\<close>, \<open>name\<close> and \<open>station\<close> hold whatever the body held.
\<close>

record StationTemp =
  key :: json
  name :: json
  temp :: pyfloat
  station :: json

text \<open>
  What \<^verbatim>\<open>requests.get\<close> returns: the status code, the URL, and the parsed body, absent
  when \<^verbatim>\<open>r.json()\<close> raises.
\<close>

record response =
  status_code :: int
  url :: string
  body :: "json option"

text \<open>
  The world of a run: the upstream service, asked by URL (the call raises or returns a
  response), and the instant \<^verbatim>\<open>datetime.now(timezone.utc)\<close> returns, in microseconds
  since the epoch.
\<close>

record world =
  http_get :: "string \<Rightarrow> py_error + response"
  utc_now :: int

record SmhiParser =
  suffix :: string

text \<open>
  A run leaves a trace of effects in the order they happen: requests sent, the clock
  read, calls of the logger (the call with its arguments, whatever the configured level
  later prints), lines printed. A computation returns its trace and a value or the
  exception that ended it.
\<close>

datatype level = DEBUG | INFO | WARNING

datatype log_arg = Val json | Reading StationTemp

datatype effect =
    Get string
  | Now
  | Log level string "log_arg list"
  | Print string

type_synonym 'a run = "effect list \<times> (py_error + 'a)"

definition ret :: "'a \<Rightarrow> 'a run" where
  "ret x = ([], Inr x)"

definition lift :: "py_error + 'a \<Rightarrow> 'a run" where
  "lift r = ([], r)"

definition emit :: "effect \<Rightarrow> unit run" where
  "emit e = ([e], Inr ())"

definition bnd :: "'a run \<Rightarrow> ('a \<Rightarrow> 'b run) \<Rightarrow> 'b run" where
  "bnd m f =
     (case m of
        (t, Inl e) \<Rightarrow> (t, Inl e)
      | (t, Inr x) \<Rightarrow> (case f x of (t', r) \<Rightarrow> (t @ t', r)))"

definition sbind :: "py_error + 'a \<Rightarrow> ('a \<Rightarrow> py_error + 'b) \<Rightarrow> py_error + 'b" where
  "sbind m f = (case m of Inl e \<Rightarrow> Inl e | Inr x \<Rightarrow> f x)"

fun traverse :: "('a \<Rightarrow> py_error + 'b) \<Rightarrow> 'a list \<Rightarrow> py_error + 'b list" where
  "traverse f [] = Inr []"
| "traverse f (x # xs) = sbind (f x) (\<lambda>y. sbind (traverse f xs) (\<lambda>ys. Inr (y # ys)))"

section \<open>The program\<close>

subsection \<open>Requests\<close>

definition BASE_URL :: string where
  "BASE_URL = ''https://opendata-download-metobs.smhi.se/api''"

text \<open>\<^verbatim>\<open>_make_request\<close>: one GET of \<^verbatim>\<open>BASE_URL + path + self.suffix\<close>.\<close>

definition make_request :: "SmhiParser \<Rightarrow> world \<Rightarrow> string \<Rightarrow> response run" where
  "make_request self w path =
     (let u = BASE_URL @ path @ suffix self in ([Get u], http_get w u))"

text \<open>\<^verbatim>\<open>r.json()\<close>.\<close>

definition response_json :: "response \<Rightarrow> py_error + json" where
  "response_json r = (case body r of None \<Rightarrow> Inl JSONDecodeError | Some b \<Rightarrow> Inr b)"

text \<open>\<^verbatim>\<open>check_connection\<close>.\<close>

definition check_connection :: "SmhiParser \<Rightarrow> world \<Rightarrow> int run" where
  "check_connection self w = bnd (make_request self w []) (\<lambda>r. ret (status_code r))"

subsection \<open>Sorting\<close>

text \<open>
  What \<^verbatim>\<open>sorted\<close> iterates over: the elements of a list, the keys of a dict, the
  characters of a string; nothing else is iterable.
\<close>

fun py_iter :: "json \<Rightarrow> py_error + json list" where
  "py_iter (JArr xs) = Inr xs"
| "py_iter (JObj kvs) = Inr (map (\<lambda>kv. JStr (fst kv)) kvs)"
| "py_iter (JStr s) = Inr (map (\<lambda>c. JStr [c]) s)"
| "py_iter _ = Inl TypeError"


text \<open>
  \<^verbatim>\<open>sorted(xs, key=lambda x: x["key"])\<close>: the keys are computed first. Fewer than two
  elements are never compared. String keys are compared as strings, character by
  character, and the sort is stable. Keys of other types go through comparisons whose
  outcome depends on the sequence the sort makes them in.
\<close>

definition is_JStr :: "json \<Rightarrow> bool" where
  "is_JStr v = (case v of JStr _ \<Rightarrow> True | _ \<Rightarrow> False)"

definition the_JStr :: "json \<Rightarrow> string" where
  "the_JStr v = (case v of JStr s \<Rightarrow> s | _ \<Rightarrow> [])"

definition sorted_by_key :: "json \<Rightarrow> py_error + json list" where
  "sorted_by_key v =
     sbind (py_iter v) (\<lambda>xs.
     sbind (traverse (\<lambda>x. subscript x ''key'') xs) (\<lambda>ks.
     if length xs \<le> 1 then Inr xs
     else if list_all is_JStr ks then Inr (map snd (sort_key fst (zip (map the_JStr ks) xs)))
     else Inl Unmodelled))"

subsection \<open>parameters\<close>




subsection \<open>get_station_data\<close>

text \<open>
  The body of the \<^verbatim>\<open>try\<close>: \<^verbatim>\<open>float(r["value"][0]["value"])\<close>.
\<close>

definition station_temp_of :: "json \<Rightarrow> py_error + pyfloat" where
  "station_temp_of b =
     sbind (subscript b ''value'') (\<lambda>vs.
     sbind (index0 vs) (\<lambda>v0.
     sbind (subscript v0 ''value'') py_float))"

definition station_path :: "string \<Rightarrow> string" where
  "station_path k = ''/version/1.0/parameter/2/station/'' @ k @ ''/period/latest-day/data''"

definition warning_msg :: string where
  "warning_msg = ''Can'' @ [CHR 0x27] @ ''t get temperature for station %s''"

text \<open>
  The station's key is read from the argument and put into the path. A status other
  than 200 is logged at debug level and gives \<^verbatim>\<open>None\<close>. Then the body is parsed and
  \<^verbatim>\<open>r["station"]["name"]\<close> is read, before the \<^verbatim>\<open>try\<close>. The bare \<^verbatim>\<open>except\<close> turns any
  exception of the \<^verbatim>\<open>try\<close> body into a warning and \<^verbatim>\<open>None\<close>. The reading is built
  from the body's \<^verbatim>\<open>station\<close> object, after the \<^verbatim>\<open>try\<close>.
\<close>

definition get_station_data :: "SmhiParser \<Rightarrow> world \<Rightarrow> json \<Rightarrow> StationTemp option run" where
  "get_station_data self w station_arg =
     bnd (lift (subscript station_arg ''key'')) (\<lambda>station_key.
     bnd (lift (py_str station_key)) (\<lambda>k.
     bnd (make_request self w (station_path k)) (\<lambda>r.
     if status_code r \<noteq> 200 then
       bnd (emit (Log DEBUG ''URL %s returned status code %s''
                    [Val (JStr (url r)), Val (JInt (status_code r))])) (\<lambda>_.
       ret None)
     else
       bnd (lift (response_json r)) (\<lambda>b.
       bnd (lift (sbind (subscript b ''station'') (\<lambda>s. subscript s ''name''))) (\<lambda>station_name.
       case station_temp_of b of
         Inl Unmodelled \<Rightarrow> lift (Inl Unmodelled)
       | Inl _ \<Rightarrow>
           bnd (emit (Log WARNING warning_msg [Val station_name])) (\<lambda>_.
           ret None)
       | Inr station_temp \<Rightarrow>
           bnd (lift (sbind (subscript b ''station'') (\<lambda>s. subscript s ''key''))) (\<lambda>k'.
           bnd (lift (subscript b ''station'')) (\<lambda>s.
           let station_data = \<lparr>key = k', name = station_name, temp = station_temp, station = s\<rparr>
           in bnd (emit (Log INFO ''station %s'' [Reading station_data])) (\<lambda>_.
              ret (Some station_data)))))))))"

subsection \<open>temperatures_parameter_2\<close>

text \<open>
  Lines 98 to 104: the station list is requested, parsed, its \<^verbatim>\<open>station\<close> entry taken and
  sorted by key.
\<close>

definition fetch_stations :: "SmhiParser \<Rightarrow> world \<Rightarrow> json list run" where
  "fetch_stations self w =
     bnd (make_request self w ''/version/1.0/parameter/2'') (\<lambda>r.
     bnd (lift (response_json r)) (\<lambda>b.
     bnd (lift (subscript b ''station'')) (\<lambda>stations.
     lift (sorted_by_key stations))))"

text \<open>
  \<^verbatim>\<open>updated // 1000\<close>, the whole seconds handed to \<^verbatim>\<open>datetime.fromtimestamp\<close>. An
  integer is divided with floor; a float gives the floor of the quotient as a float
  (taken exactly here); an infinity or NaN gives NaN, which is no timestamp; a bool is
  the integer 0 or 1; nothing else supports the operator.
\<close>

fun whole_seconds :: "json \<Rightarrow> py_error + int" where
  "whole_seconds (JInt u) = Inr (u div 1000)"
| "whole_seconds (JBool b) = Inr 0"
| "whole_seconds (JFloat (Finite q)) = Inr \<lfloor>q / 1000\<rfloor>"
| "whole_seconds (JFloat _) = Inl ValueError"
| "whole_seconds _ = Inl TypeError"

text \<open>
  \<^verbatim>\<open>datetime.fromtimestamp(t, tz=timezone.utc)\<close> as microseconds since the epoch. A
  datetime lies in the years 1 to 9999; outside, the call raises (OverflowError beyond
  the platform's \<^verbatim>\<open>time_t\<close>, ValueError for the year).
\<close>

definition fromtimestamp :: "int \<Rightarrow> py_error + int" where
  "fromtimestamp t =
     (if t < - (2 ^ 63) \<or> 2 ^ 63 \<le> t then Inl OverflowError
      else if t < - 62135596800 \<or> 253402300799 < t then Inl ValueError
      else Inr (t * 1000000))"

definition day_us :: int where
  "day_us = 86400 * 1000000"

text \<open>\<^verbatim>\<open>now - updated\<close>, lines 114 to 116, in microseconds.\<close>

definition update_td :: "int \<Rightarrow> json \<Rightarrow> py_error + int" where
  "update_td now station_rec =
     sbind (subscript station_rec ''updated'') (\<lambda>u.
     sbind (whole_seconds u) (\<lambda>secs.
     sbind (fromtimestamp secs) (\<lambda>updated.
     Inr (now - updated))))"

definition stale_msg :: string where
  "stale_msg = ''station '' @ [CHR 0x27] @ ''%s'' @ [CHR 0x27] @ '' ignored as it''
               @ [CHR 0x27] @ ''s not being updated for %s days''"

text \<open>
  Lines 114 to 130, one station of the loop up to its \<^verbatim>\<open>continue\<close>: \<open>None\<close> when the
  station is skipped, the reading otherwise. The arguments of the debug call are
  evaluated before the call: \<^verbatim>\<open>station["name"]\<close> and \<^verbatim>\<open>update_td.days\<close>.
\<close>

definition station_reading ::
    "SmhiParser \<Rightarrow> world \<Rightarrow> int \<Rightarrow> json \<Rightarrow> StationTemp option run" where
  "station_reading self w now station_rec =
     bnd (lift (update_td now station_rec)) (\<lambda>td.
     if td > 2 * day_us then
       bnd (lift (subscript station_rec ''name'')) (\<lambda>n.
       bnd (emit (Log DEBUG stale_msg [Val n, Val (JInt (td div day_us))])) (\<lambda>_.
       ret None))
     else get_station_data self w station_rec)"

text \<open>Lines 131 to 134: the two accumulators, maximum first.\<close>

definition update_extrema ::
    "StationTemp \<Rightarrow> StationTemp \<times> StationTemp \<Rightarrow> StationTemp \<times> StationTemp" where
  "update_extrema station_data acc =
     (case acc of (max_station, min_station) \<Rightarrow>
        (if float_gt (temp station_data) (temp max_station) then station_data else max_station,
         if float_lt (temp station_data) (temp min_station) then station_data else min_station))"

fun station_loop ::
    "SmhiParser \<Rightarrow> world \<Rightarrow> int \<Rightarrow> json list \<Rightarrow> StationTemp \<times> StationTemp
      \<Rightarrow> (StationTemp \<times> StationTemp) run" where
  "station_loop self w now [] acc = ret acc"
| "station_loop self w now (station_rec # rest) acc =
     bnd (station_reading self w now station_rec) (\<lambda>station_data.
     station_loop self w now rest
       (case station_data of None \<Rightarrow> acc | Some d \<Rightarrow> update_extrema d acc))"

definition sentinel_max :: StationTemp where
  "sentinel_max = \<lparr>key = JNull, name = JStr ''N/A'', temp = NegInf, station = JNull\<rparr>"

definition sentinel_min :: StationTemp where
  "sentinel_min = \<lparr>key = JNull, name = JStr ''N/A'', temp = PosInf, station = JNull\<rparr>"

text \<open>
  The f-strings of lines 136 and 137:
  \<^verbatim>\<open>f"Highest temperature: {max_station.name}, {max_station.temp:.1f} degrees"\<close>.
\<close>

definition report_line :: "string \<Rightarrow> StationTemp \<Rightarrow> py_error + string" where
  "report_line label st =
     sbind (py_str (name st)) (\<lambda>n.
     Inr (label @ n @ '', '' @ format_1f (temp st) @ '' degrees''))"

definition print_report :: "StationTemp \<times> StationTemp \<Rightarrow> unit run" where
  "print_report acc =
     (case acc of (max_station, min_station) \<Rightarrow>
        bnd (lift (report_line ''Highest temperature: '' max_station)) (\<lambda>l.
        bnd (emit (Print l)) (\<lambda>_.
        bnd (lift (report_line ''Lowest temperature: '' min_station)) (\<lambda>l.
        emit (Print l)))))"

definition temperatures_parameter_2 :: "SmhiParser \<Rightarrow> world \<Rightarrow> unit run" where
  "temperatures_parameter_2 self w =
     bnd (fetch_stations self w) (\<lambda>stations.
     bnd (emit Now) (\<lambda>_.
     bnd (station_loop self w (utc_now w) stations (sentinel_max, sentinel_min)) (\<lambda>acc.
     print_report acc)))"

section \<open>Notions used in the statements\<close>

text \<open>The URL of a station's latest-day data.\<close>

definition data_url :: "SmhiParser \<Rightarrow> string \<Rightarrow> string" where
  "data_url self k = BASE_URL @ station_path k @ suffix self"

text \<open>
  The readings of a pass over the stations, in the order of the pass: what
  \<open>station_reading\<close> returns for the stations it does not skip.
\<close>

definition readings :: "SmhiParser \<Rightarrow> world \<Rightarrow> int \<Rightarrow> json list \<Rightarrow> StationTemp list" where
  "readings self w now stations =
     List.map_filter (\<lambda>s. case snd (station_reading self w now s) of Inr r \<Rightarrow> r | Inl _ \<Rightarrow> None)
       stations"

text \<open>The lines a run prints, in order.\<close>

definition printed :: "effect list \<Rightarrow> string list" where
  "printed t = List.map_filter (\<lambda>e. case e of Print s \<Rightarrow> Some s | _ \<Rightarrow> None) t"

text \<open>The effects of the station loop: requests and calls of the logger.\<close>

definition is_request_or_log :: "effect \<Rightarrow> bool" where
  "is_request_or_log e = (case e of Get _ \<Rightarrow> True | Log _ _ _ \<Rightarrow> True | _ \<Rightarrow> False)"

text \<open>One accumulator of the loop: replaced when the new reading is strictly better.\<close>

definition pick :: "(pyfloat \<Rightarrow> pyfloat \<Rightarrow> bool) \<Rightarrow> StationTemp \<Rightarrow> StationTemp \<Rightarrow> StationTemp" where
  "pick better d a = (if better (temp d) (temp a) then d else a)"

text \<open>The value of \<open>updated\<close> as a number of milliseconds.\<close>

definition ms_value :: "json \<Rightarrow> rat option" where
  "ms_value v =
     (case v of
        JInt u \<Rightarrow> Some (rat_of_int u)
      | JBool b \<Rightarrow> Some (if b then 1 else 0)
      | JFloat (Finite q) \<Rightarrow> Some q
      | _ \<Rightarrow> None)"

text \<open>The station's \<open>updated\<close> instant lies more than two days before \<open>now\<close>.\<close>

definition older_than_2_days :: "int \<Rightarrow> json \<Rightarrow> bool" where
  "older_than_2_days now s =
     (case subscript s ''updated'' of
        Inr v \<Rightarrow> (case ms_value v of
                    Some ms \<Rightarrow> rat_of_int (2 * day_us) < rat_of_int now - ms * 1000
                  | None \<Rightarrow> False)
      | Inl _ \<Rightarrow> False)"

text \<open>
  The integer value of an entry's key, as the sort of \<open>parameters\<close> computes it, and the
  string value of a field.
\<close>

definition int_key :: "json \<Rightarrow> int" where
  "int_key p = (case sbind (subscript p ''key'') py_int of Inr i \<Rightarrow> i | Inl _ \<Rightarrow> 0)"

definition str_field :: "json \<Rightarrow> string \<Rightarrow> string" where
  "str_field p k = (case subscript p k of Inr v \<Rightarrow> the_JStr v | Inl _ \<Rightarrow> [])"


text \<open>The key of a station record as the sort of the station list reads it.\<close>

definition str_key :: "json \<Rightarrow> string" where
  "str_key s = str_field s ''key''"

section \<open>Example worlds\<close>

text \<open>The parser as \<^verbatim>\<open>main\<close> builds it: \<^verbatim>\<open>SmhiParser()\<close>.\<close>

definition default_parser :: SmhiParser where
  "default_parser = \<lparr>suffix = ''.json''\<rparr>"

text \<open>The URL of the station list.\<close>

definition list_url :: "SmhiParser \<Rightarrow> string" where
  "list_url self = BASE_URL @ ''/version/1.0/parameter/2'' @ suffix self"

text \<open>A response with status 200 and a body.\<close>

definition ok :: "string \<Rightarrow> json \<Rightarrow> py_error + response" where
  "ok u b = Inr \<lparr>status_code = 200, url = u, body = Some b\<rparr>"

text \<open>
  The body of a station's data as the service sends it and as the repository's tests
  build it: \<^verbatim>\<open>{"station": {"key": k, "name": n}, "value": [{"value": v}]}\<close>.
\<close>

definition station_body :: "json \<Rightarrow> json \<Rightarrow> json \<Rightarrow> json" where
  "station_body k n v =
     JObj [(''station'', JObj [(''key'', k), (''name'', n)]),
           (''value'', JArr [JObj [(''value'', v)]])]"

text \<open>
  A world that answers the URLs of a table and refuses every other request, at a given
  instant.
\<close>

definition serve :: "(string \<times> (py_error + response)) list \<Rightarrow> int \<Rightarrow> world" where
  "serve table now =
     \<lparr>http_get = (\<lambda>u. case map_of table u of Some r \<Rightarrow> r | None \<Rightarrow> Inl RequestException),
      utc_now = now\<rparr>"

text \<open>The data of station \<open>k\<close> as a row of such a table.\<close>

definition data_row :: "string \<Rightarrow> json \<Rightarrow> string \<times> (py_error + response)" where
  "data_row k b = (data_url default_parser k, ok (data_url default_parser k) b)"

text \<open>The station list as a row of such a table.\<close>

definition list_row :: "json list \<Rightarrow> string \<times> (py_error + response)" where
  "list_row stations =
     (list_url default_parser,
      ok (list_url default_parser) (JObj [(''station'', JArr stations)]))"


text \<open>A station whose data names another station than the one asked for.\<close>

definition mismatch_world :: world where
  "mismatch_world = serve [data_row ''1'' (station_body (JStr ''2'') (JStr ''B'') (JStr ''5.0''))] 0"

text \<open>A response with a status and no body.\<close>

definition status_row :: "string \<Rightarrow> int \<Rightarrow> string \<times> (py_error + response)" where
  "status_row k c =
     (data_url default_parser k,
      Inr \<lparr>status_code = c, url = data_url default_parser k, body = None\<rparr>)"

text \<open>
  A station record as the repository's tests build it, \<^verbatim>\<open>{"updated": u, "key": k}\<close>, and
  one with a name as the service sends it.
\<close>

definition station_rec :: "string \<Rightarrow> json \<Rightarrow> json" where
  "station_rec k u = JObj [(''updated'', u), (''key'', JStr k)]"

definition named_station :: "string \<Rightarrow> string \<Rightarrow> json \<Rightarrow> json" where
  "named_station k n u = JObj [(''key'', JStr k), (''name'', JStr n), (''updated'', u)]"

text \<open>
  The instant of the example runs, in microseconds, and the same instant in
  milliseconds as a station's \<open>updated\<close>.
\<close>

definition run_instant :: int where
  "run_instant = 1700000000000000"

definition just_updated :: json where
  "just_updated = JInt 1700000000000"

text \<open>
  A world in which no station yields a reading: one station last updated in 1970, one
  fresh station whose data is not found.
\<close>

definition skip_world :: world where
  "skip_world =
     serve [list_row [named_station ''2'' ''B'' just_updated, named_station ''1'' ''A'' (JInt 0)],
            status_row ''2'' 404]
       run_instant"

text \<open>The same world with one more URL answered, which the run never asks for.\<close>

definition skip_world' :: world where
  "skip_world' =
     serve [([], ok [] JNull),
            list_row [named_station ''2'' ''B'' just_updated, named_station ''1'' ''A'' (JInt 0)],
            status_row ''2'' 404]
       run_instant"

text \<open>
  A station that is exactly two days old at the instant of the run: updated 1.5 s after
  the epoch, asked about two days and 1.5 s after the epoch. Its data is there.
\<close>

definition boundary_world :: world where
  "boundary_world =
     serve [list_row [named_station ''1'' ''A'' (JInt 1500)],
            data_row ''1'' (station_body (JStr ''1'') (JStr ''A'') (JStr ''5.0''))]
       172801500000"

text \<open>
  A stale station whose record has no name, as the records of the repository's tests
  have none.
\<close>

definition nameless_stale_world :: world where
  "nameless_stale_world = serve [list_row [station_rec ''1'' (JInt 0)]] run_instant"

text \<open>A fresh station whose data has no \<^verbatim>\<open>station.name\<close>.\<close>

definition nameless_body_world :: world where
  "nameless_body_world =
     serve [list_row [station_rec ''1'' just_updated],
            data_row ''1'' (JObj [(''station'', JObj [(''key'', JStr ''1'')]),
                                  (''value'', JArr [JObj [(''value'', JStr ''5.0'')]])])]
       run_instant"


text \<open>An entry of the catalog and the catalog as a row of a table.\<close>

definition param_entry :: "string \<Rightarrow> string \<Rightarrow> string \<Rightarrow> json" where
  "param_entry k t s = JObj [(''key'', JStr k), (''title'', JStr t), (''summary'', JStr s)]"







section \<open>Properties\<close>

subsection \<open>Computations\<close>

lemma bnd_Inl [simp]: "bnd (t, Inl e) f = (t, Inl e)"
  by (simp add: bnd_def)

lemma bnd_Inr [simp]: "bnd (t, Inr x) f = (t @ fst (f x), snd (f x))"
  by (simp add: bnd_def split: prod.splits)

lemma bnd_ret [simp]: "bnd (ret x) f = f x"
  by (simp add: ret_def)

lemma bnd_emit [simp]: "bnd (emit e) f = (e # fst (f ()), snd (f ()))"
  by (simp add: emit_def)

lemma bnd_lift_Inr [simp]: "bnd (lift (Inr x)) f = f x"
  by (simp add: lift_def)

lemma bnd_lift_Inl [simp]: "bnd (lift (Inl e)) f = ([], Inl e)"
  by (simp add: lift_def)

lemma snd_bnd: "snd (bnd m f) = (case snd m of Inl e \<Rightarrow> Inl e | Inr x \<Rightarrow> snd (f x))"
  by (cases m) (auto simp: bnd_def split: sum.splits prod.splits)

lemma fst_bnd: "fst (bnd m f) = (case snd m of Inl e \<Rightarrow> fst m | Inr x \<Rightarrow> fst m @ fst (f x))"
  by (cases m) (auto simp: bnd_def split: sum.splits prod.splits)

lemma loop_result:
  "snd (station_loop self w now ss acc) = Inr acc' \<Longrightarrow>
   acc' = fold update_extrema (readings self w now ss) acc"
proof (induction ss arbitrary: acc)
  case Nil
  then show ?case by (simp add: readings_def map_filter_simps ret_def)
next
  case (Cons s ss)
  from Cons.prems obtain r where r: "snd (station_reading self w now s) = Inr r"
    by (auto simp: snd_bnd split: sum.splits)
  with Cons.prems have
    "snd (station_loop self w now ss (case r of None \<Rightarrow> acc | Some d \<Rightarrow> update_extrema d acc)) = Inr acc'"
    by (simp add: snd_bnd)
  from Cons.IH [OF this] r show ?case
    by (cases r) (simp_all add: readings_def map_filter_simps)
qed

lemma loop_returns:
  "\<forall>s\<in>set ss. \<exists>r. snd (station_reading self w now s) = Inr r \<Longrightarrow>
   \<exists>acc'. snd (station_loop self w now ss acc) = Inr acc'"
proof (induction ss arbitrary: acc)
  case Nil
  then show ?case by (simp add: ret_def)
next
  case (Cons s ss)
  then obtain r where r: "snd (station_reading self w now s) = Inr r" by auto
  from Cons.IH [of "case r of None \<Rightarrow> acc | Some d \<Rightarrow> update_extrema d acc"] Cons.prems r
  show ?case by (simp add: snd_bnd)
qed

lemma loop_trace:
  "set (fst (station_loop self w now ss acc))
     \<subseteq> (\<Union>s\<in>set ss. set (fst (station_reading self w now s)))"
proof (induction ss arbitrary: acc)
  case Nil
  then show ?case by (simp add: ret_def)
next
  case (Cons s ss)
  show ?case
  proof (cases "snd (station_reading self w now s)")
    case (Inl e)
    then show ?thesis by (auto simp: fst_bnd)
  next
    case (Inr r)
    have "set (fst (station_loop self w now ss (case r of None \<Rightarrow> acc | Some d \<Rightarrow> update_extrema d acc)))
            \<subseteq> (\<Union>s\<in>set ss. set (fst (station_reading self w now s)))"
      by (rule Cons.IH)
    with Inr show ?thesis by (auto simp: fst_bnd)
  qed
qed

subsection \<open>The two accumulators\<close>

lemma float_lt_NaN [simp]: "float_lt a NaN = False" "float_lt NaN a = False"
  by (cases a; simp)+

lemma float_lt_irrefl [simp]: "\<not> float_lt a a"
  by (cases a) simp_all






lemma fold_update_extrema:
  "fold update_extrema rs (mx, mn) = (fold (pick float_gt) rs mx, fold (pick float_lt) rs mn)"
  by (induction rs arbitrary: mx mn) (simp_all add: update_extrema_def pick_def)




subsection \<open>get_station_data\<close>

lemma make_request_eq:
  "make_request self w p = ([Get (BASE_URL @ p @ suffix self)], http_get w (BASE_URL @ p @ suffix self))"
  by (simp add: make_request_def Let_def)

lemma gsd_trace: "\<forall>e\<in>set (fst (get_station_data self w s)). is_request_or_log e"
  by (auto simp: get_station_data_def make_request_eq fst_bnd snd_bnd lift_def ret_def emit_def
        is_request_or_log_def Let_def split: sum.splits py_error.splits if_splits)

lemma gsd_not_200:
  assumes "subscript s ''key'' = Inr kj" "py_str kj = Inr k"
      and "http_get w (data_url self k) = Inr r" "status_code r \<noteq> 200"
  shows "get_station_data self w s =
           ([Get (data_url self k),
             Log DEBUG ''URL %s returned status code %s'' [Val (JStr (url r)), Val (JInt (status_code r))]],
            Inr None)"
  using assms by (simp add: get_station_data_def make_request_eq data_url_def ret_def emit_def)

lemma gsd_reading:
  assumes "subscript s ''key'' = Inr kj" "py_str kj = Inr k"
      and "http_get w (data_url self k) = Inr r" "status_code r = 200" "body r = Some b"
      and "subscript b ''station'' = Inr st" "subscript st ''name'' = Inr n"
      and "station_temp_of b = Inr t" "subscript st ''key'' = Inr k'"
  shows "get_station_data self w s =
           ([Get (data_url self k),
             Log INFO ''station %s'' [Reading \<lparr>key = k', name = n, temp = t, station = st\<rparr>]],
            Inr (Some \<lparr>key = k', name = n, temp = t, station = st\<rparr>))"
  using assms
  by (simp add: get_station_data_def make_request_eq data_url_def ret_def emit_def
        response_json_def sbind_def Let_def)

lemma gsd_warning:
  assumes "subscript s ''key'' = Inr kj" "py_str kj = Inr k"
      and "http_get w (data_url self k) = Inr r" "status_code r = 200" "body r = Some b"
      and "subscript b ''station'' = Inr st" "subscript st ''name'' = Inr n"
      and "station_temp_of b = Inl e" "e \<noteq> Unmodelled"
  shows "get_station_data self w s =
           ([Get (data_url self k), Log WARNING warning_msg [Val n]], Inr None)"
  using assms
  by (cases e) (simp_all add: get_station_data_def make_request_eq data_url_def ret_def emit_def
        response_json_def sbind_def Let_def)

lemma gsd_no_name:
  assumes "subscript s ''key'' = Inr kj" "py_str kj = Inr k"
      and "http_get w (data_url self k) = Inr r" "status_code r = 200" "body r = Some b"
      and "sbind (subscript b ''station'') (\<lambda>st. subscript st ''name'') = Inl e"
  shows "get_station_data self w s = ([Get (data_url self k)], Inl e)"
  using assms
  by (simp add: get_station_data_def make_request_eq data_url_def ret_def emit_def
        response_json_def sbind_def Let_def lift_def)

lemma gsd_Some_iff:
  "snd (get_station_data self w s) = Inr (Some d) \<longleftrightarrow>
     (\<exists>kj k r b st n t k'.
        subscript s ''key'' = Inr kj \<and> py_str kj = Inr k
        \<and> http_get w (data_url self k) = Inr r \<and> status_code r = 200 \<and> body r = Some b
        \<and> subscript b ''station'' = Inr st \<and> subscript st ''name'' = Inr n
        \<and> station_temp_of b = Inr t \<and> subscript st ''key'' = Inr k'
        \<and> d = \<lparr>key = k', name = n, temp = t, station = st\<rparr>)"
  apply (rule iffI)
   apply (auto simp: get_station_data_def make_request_eq data_url_def ret_def emit_def lift_def
        response_json_def sbind_def Let_def snd_bnd split: sum.splits if_splits option.splits py_error.splits)[1]
  apply (auto simp: gsd_reading)
  done

lemma gsd_None_iff:
  "snd (get_station_data self w s) = Inr None \<longleftrightarrow>
     (\<exists>kj k r. subscript s ''key'' = Inr kj \<and> py_str kj = Inr k
        \<and> http_get w (data_url self k) = Inr r
        \<and> (status_code r \<noteq> 200
           \<or> (\<exists>b st n e. body r = Some b \<and> subscript b ''station'' = Inr st
                \<and> subscript st ''name'' = Inr n \<and> station_temp_of b = Inl e \<and> e \<noteq> Unmodelled)))"
proof
  assume "snd (get_station_data self w s) = Inr None"
  then show "\<exists>kj k r. subscript s ''key'' = Inr kj \<and> py_str kj = Inr k
        \<and> http_get w (data_url self k) = Inr r
        \<and> (status_code r \<noteq> 200
           \<or> (\<exists>b st n e. body r = Some b \<and> subscript b ''station'' = Inr st
                \<and> subscript st ''name'' = Inr n \<and> station_temp_of b = Inl e \<and> e \<noteq> Unmodelled))"
    by (auto simp: get_station_data_def make_request_eq data_url_def ret_def emit_def lift_def
        response_json_def sbind_def Let_def snd_bnd split: sum.splits if_splits option.splits py_error.splits)
next
  assume "\<exists>kj k r. subscript s ''key'' = Inr kj \<and> py_str kj = Inr k
        \<and> http_get w (data_url self k) = Inr r
        \<and> (status_code r \<noteq> 200
           \<or> (\<exists>b st n e. body r = Some b \<and> subscript b ''station'' = Inr st
                \<and> subscript st ''name'' = Inr n \<and> station_temp_of b = Inl e \<and> e \<noteq> Unmodelled))"
  then obtain kj k r where k: "subscript s ''key'' = Inr kj" "py_str kj = Inr k"
      "http_get w (data_url self k) = Inr r"
    and d: "status_code r \<noteq> 200
           \<or> (\<exists>b st n e. body r = Some b \<and> subscript b ''station'' = Inr st
                \<and> subscript st ''name'' = Inr n \<and> station_temp_of b = Inl e \<and> e \<noteq> Unmodelled)"
    by blast
  show "snd (get_station_data self w s) = Inr None"
  proof (cases "status_code r = 200")
    case True
    with d obtain b st n e where "body r = Some b" "subscript b ''station'' = Inr st"
      "subscript st ''name'' = Inr n" "station_temp_of b = Inl e" "e \<noteq> Unmodelled" by blast
    with k True show ?thesis by (simp add: gsd_warning)
  next
    case False
    with k show ?thesis by (simp add: gsd_not_200)
  qed
qed

subsection \<open>station_reading\<close>

lemma whole_seconds_ms:
  "ms_value v = Some ms \<Longrightarrow> whole_seconds v = Inr \<lfloor>ms / 1000\<rfloor>"
proof -
  have a: "\<lfloor>rat_of_int u / 1000\<rfloor> = u div 1000" for u
    using floor_divide_of_int_eq [of u 1000, where ?'a = rat] by simp
  have b: "\<lfloor>(1::rat) / 1000\<rfloor> = 0"
    by (simp add: floor_eq_iff)
  assume "ms_value v = Some ms"
  then show ?thesis
    by (cases v rule: whole_seconds.cases) (auto simp: ms_value_def a b split: if_splits)
qed

lemma whole_seconds_le: "rat_of_int (\<lfloor>ms / 1000\<rfloor> * 1000000) \<le> ms * 1000"
proof -
  have "rat_of_int \<lfloor>ms / 1000\<rfloor> \<le> ms / 1000" by (rule of_int_floor_le)
  then have "rat_of_int \<lfloor>ms / 1000\<rfloor> * 1000000 \<le> ms / 1000 * 1000000"
    by (rule mult_right_mono) simp
  then show ?thesis by simp
qed

lemma older_update_td:
  assumes "older_than_2_days now s" and "update_td now s = Inr td"
  shows "2 * day_us < td"
proof -
  from assms(1) obtain v ms where v: "subscript s ''updated'' = Inr v" "ms_value v = Some ms"
    and old: "rat_of_int (2 * day_us) < rat_of_int now - ms * 1000"
    by (auto simp: older_than_2_days_def split: sum.splits option.splits)
  from assms(2) v have td: "td = now - \<lfloor>ms / 1000\<rfloor> * 1000000"
    by (auto simp: update_td_def sbind_def whole_seconds_ms fromtimestamp_def split: if_splits)
  have "rat_of_int (2 * day_us) < rat_of_int now - rat_of_int (\<lfloor>ms / 1000\<rfloor> * 1000000)"
    using old whole_seconds_le [of ms] by linarith
  then have "rat_of_int (2 * day_us) < rat_of_int (now - \<lfloor>ms / 1000\<rfloor> * 1000000)"
    by simp
  then show ?thesis unfolding td by (simp only: of_int_less_iff)
qed

lemma station_reading_stale:
  assumes "update_td now s = Inr td" "2 * day_us < td"
  shows "station_reading self w now s =
           (case subscript s ''name'' of
              Inl e \<Rightarrow> ([], Inl e)
            | Inr n \<Rightarrow> ([Log DEBUG stale_msg [Val n, Val (JInt (td div day_us))]], Inr None))"
  using assms by (simp add: station_reading_def lift_def ret_def emit_def split: sum.splits)

lemma station_reading_fresh:
  assumes "update_td now s = Inr td" "td \<le> 2 * day_us"
  shows "station_reading self w now s = get_station_data self w s"
  using assms by (simp add: station_reading_def)

lemma station_reading_error:
  assumes "update_td now s = Inl e"
  shows "station_reading self w now s = ([], Inl e)"
  using assms by (simp add: station_reading_def)

lemma station_reading_trace: "\<forall>e\<in>set (fst (station_reading self w now s)). is_request_or_log e"
proof (cases "update_td now s")
  case (Inl e)
  then show ?thesis by (simp add: station_reading_error)
next
  case (Inr td)
  show ?thesis
  proof (cases "2 * day_us < td")
    case True
    with Inr show ?thesis
      by (simp add: station_reading_stale is_request_or_log_def split: sum.splits)
  next
    case False
    with Inr show ?thesis by (simp add: station_reading_fresh gsd_trace)
  qed
qed

lemma older_never_read:
  assumes "older_than_2_days now s"
  shows "(\<forall>u. Get u \<notin> set (fst (station_reading self w now s)))
       \<and> (\<forall>d. snd (station_reading self w now s) \<noteq> Inr (Some d))"
proof (cases "update_td now s")
  case (Inl e)
  then show ?thesis by (simp add: station_reading_error)
next
  case (Inr td)
  with assms have "2 * day_us < td" by (rule older_update_td)
  with Inr show ?thesis by (simp add: station_reading_stale split: sum.splits)
qed

subsection \<open>Evaluation of the examples\<close>

lemma float_overflow_ge: "(2::rat) ^ 64 \<le> float_overflow"
  unfolding float_overflow_def by simp

lemma float_of_rat_small: "\<bar>q\<bar> < 2 ^ 64 \<Longrightarrow> float_of_rat q = Finite q"
  using float_overflow_ge unfolding float_of_rat_def by auto

lemmas parse_defs = float_of_str_def int_of_str_def is_ascii_def strip_def is_space_def lower_def
  is_digit_def digits_value_def exponent_of_def

lemma float_of_str_examples:
  "float_of_str ''10.0'' = Inr (Finite 10)"
  "float_of_str ''11.0'' = Inr (Finite 11)"
  "float_of_str ''12.0'' = Inr (Finite 12)"
  "float_of_str ''5.0'' = Inr (Finite 5)"
  "float_of_str ''inf'' = Inr PosInf"
  "float_of_str ''-inf'' = Inr NegInf"
  "float_of_str ''nan'' = Inr NaN"
  "float_of_str ''n/a'' = Inl ValueError"
  by (simp_all add: parse_defs float_of_rat_small)

lemma data_url_inj [simp]: "data_url self k = data_url self k' \<longleftrightarrow> k = k'"
  by (simp add: data_url_def station_path_def)

lemma list_url_neq_data_url [simp]:
  "list_url self \<noteq> data_url self k" "data_url self k \<noteq> list_url self"
proof -
  have "length (list_url self) < length (data_url self k)"
    by (simp add: list_url_def data_url_def station_path_def)
  then show "list_url self \<noteq> data_url self k" "data_url self k \<noteq> list_url self" by auto
qed

lemma station_temp_of_body [simp]:
  "station_temp_of (station_body k n v) = py_float v"
  by (simp add: station_temp_of_def station_body_def sbind_def)

lemma station_body_station [simp]:
  "subscript (station_body k n v) ''station'' = Inr (JObj [(''key'', k), (''name'', n)])"
  by (simp add: station_body_def)

lemma http_get_serve [simp]:
  "http_get (serve table now) u = (case map_of table u of Some r \<Rightarrow> r | None \<Rightarrow> Inl RequestException)"
  by (simp add: serve_def)

lemma utc_now_serve [simp]: "utc_now (serve table now) = now"
  by (simp add: serve_def)

subsection \<open>The run\<close>

lemma printed_append [simp]: "printed (a @ b) = printed a @ printed b"
  by (simp add: printed_def List.map_filter_def)

lemma printed_Nil [simp]: "printed [] = []"
  by (simp add: printed_def List.map_filter_def)

lemma printed_Cons [simp]:
  "printed (e # t) = (case e of Print s \<Rightarrow> s # printed t | _ \<Rightarrow> printed t)"
  by (cases e) (simp_all add: printed_def List.map_filter_def)

lemma printed_requests_logs: "\<forall>e\<in>set t. is_request_or_log e \<Longrightarrow> printed t = []"
  by (induction t) (auto simp: is_request_or_log_def split: effect.splits)

lemma loop_trace_kind: "\<forall>e\<in>set (fst (station_loop self w now ss acc)). is_request_or_log e"
  using loop_trace [of self w now ss acc] station_reading_trace by blast

lemma fetch_stations_eq:
  "fetch_stations self w =
     ([Get (list_url self)],
      sbind (http_get w (list_url self)) (\<lambda>r.
      sbind (response_json r) (\<lambda>b.
      sbind (subscript b ''station'') sorted_by_key)))"
  by (simp add: fetch_stations_def make_request_eq list_url_def sbind_def lift_def
      split: sum.splits)

lemma print_report_eq:
  "print_report (hi, lo) =
     (case report_line ''Highest temperature: '' hi of
        Inl e \<Rightarrow> ([], Inl e)
      | Inr l1 \<Rightarrow>
          (case report_line ''Lowest temperature: '' lo of
             Inl e \<Rightarrow> ([Print l1], Inl e)
           | Inr l2 \<Rightarrow> ([Print l1, Print l2], Inr ())))"
  by (simp add: print_report_def lift_def emit_def split: sum.splits)

lemma run_eq:
  assumes "fetch_stations self w = (t0, Inr stations)"
  shows "temperatures_parameter_2 self w =
           (case station_loop self w (utc_now w) stations (sentinel_max, sentinel_min) of
              (t1, Inl e) \<Rightarrow> (t0 @ Now # t1, Inl e)
            | (t1, Inr acc) \<Rightarrow> (t0 @ Now # t1 @ fst (print_report acc), snd (print_report acc)))"
  using assms by (simp add: temperatures_parameter_2_def split: prod.splits sum.splits)

lemma run_returns:
  assumes fetch: "fetch_stations self w = (t0, Inr stations)"
      and loop: "snd (station_loop self w (utc_now w) stations (sentinel_max, sentinel_min)) = Inr (hi, lo)"
      and names: "py_str (name hi) = Inr nh" "py_str (name lo) = Inr nl"
  shows "snd (temperatures_parameter_2 self w) = Inr ()"
    and "printed (fst (temperatures_parameter_2 self w)) =
           [''Highest temperature: '' @ nh @ '', '' @ format_1f (temp hi) @ '' degrees'',
            ''Lowest temperature: '' @ nl @ '', '' @ format_1f (temp lo) @ '' degrees'']"
proof -
  obtain t1 where t1: "station_loop self w (utc_now w) stations (sentinel_max, sentinel_min) = (t1, Inr (hi, lo))"
    using loop by (cases "station_loop self w (utc_now w) stations (sentinel_max, sentinel_min)") simp
  have p1: "printed t1 = []"
    using loop_trace_kind [of self w "utc_now w" stations "(sentinel_max, sentinel_min)"] t1
    by (simp add: printed_requests_logs)
  have p0: "printed t0 = []"
    using fetch by (auto simp: fetch_stations_eq)
  show "snd (temperatures_parameter_2 self w) = Inr ()"
    using names by (simp add: run_eq [OF fetch] t1 print_report_eq report_line_def sbind_def)
  show "printed (fst (temperatures_parameter_2 self w)) =
           [''Highest temperature: '' @ nh @ '', '' @ format_1f (temp hi) @ '' degrees'',
            ''Lowest temperature: '' @ nl @ '', '' @ format_1f (temp lo) @ '' degrees'']"
    using names by (simp add: run_eq [OF fetch] t1 print_report_eq report_line_def sbind_def p0 p1)
qed


lemma sentinel_fields [simp]:
  "temp sentinel_max = NegInf" "temp sentinel_min = PosInf"
  "name sentinel_max = JStr ''N/A''" "name sentinel_min = JStr ''N/A''"
  by (simp_all add: sentinel_max_def sentinel_min_def)

lemma format_1f_inf [simp]: "format_1f NegInf = ''-inf''" "format_1f PosInf = ''inf''"
  by (simp_all add: format_1f_def)

subsection \<open>Evaluation of the example runs\<close>

lemma url_not_Nil [simp]: "list_url self \<noteq> []" "data_url self k \<noteq> []"
  "[] \<noteq> list_url self" "[] \<noteq> data_url self k"
  by (simp_all add: list_url_def data_url_def BASE_URL_def)

lemma subscript_station_rec [simp]:
  "subscript (station_rec k u) ''key'' = Inr (JStr k)"
  "subscript (station_rec k u) ''updated'' = Inr u"
  "subscript (station_rec k u) ''name'' = Inl KeyError"
  by (simp_all add: station_rec_def)

lemma subscript_named_station [simp]:
  "subscript (named_station k n u) ''key'' = Inr (JStr k)"
  "subscript (named_station k n u) ''updated'' = Inr u"
  "subscript (named_station k n u) ''name'' = Inr (JStr n)"
  by (simp_all add: named_station_def)

lemma update_td_examples:
  "update_td run_instant (named_station k n just_updated) = Inr 0"
  "update_td run_instant (station_rec k just_updated) = Inr 0"
  "update_td run_instant (named_station k n (JInt 0)) = Inr 1700000000000000"
  "update_td run_instant (station_rec k (JInt 0)) = Inr 1700000000000000"
  by (simp_all add: update_td_def sbind_def fromtimestamp_def run_instant_def just_updated_def)

lemma sorted_by_key_pair:
  "sorted_by_key (JArr [a, b]) =
     sbind (subscript a ''key'') (\<lambda>ka. sbind (subscript b ''key'') (\<lambda>kb.
       if is_JStr ka \<and> is_JStr kb
       then Inr (if the_JStr kb < the_JStr ka then [b, a] else [a, b])
       else Inl Unmodelled))"
  by (auto simp: sorted_by_key_def sbind_def split: sum.splits)

lemma skip_fetch:
  "fetch_stations default_parser skip_world =
     ([Get (list_url default_parser)],
      Inr [named_station ''1'' ''A'' (JInt 0), named_station ''2'' ''B'' just_updated])"
  by (simp add: fetch_stations_eq skip_world_def list_row_def status_row_def ok_def sbind_def
        response_json_def sorted_by_key_pair is_JStr_def the_JStr_def)

lemma skip_readings:
  "station_reading default_parser skip_world run_instant (named_station ''1'' ''A'' (JInt 0))
     = ([Log DEBUG stale_msg [Val (JStr ''A''), Val (JInt 19675)]], Inr None)"
  "station_reading default_parser skip_world run_instant (named_station ''2'' ''B'' just_updated)
     = ([Get (data_url default_parser ''2''),
         Log DEBUG ''URL %s returned status code %s''
           [Val (JStr (data_url default_parser ''2'')), Val (JInt 404)]], Inr None)"
  by (simp_all add: station_reading_stale [OF update_td_examples(3)]
        station_reading_fresh [OF update_td_examples(1)] day_us_def
        gsd_not_200 [where k = "''2''" and kj = "JStr ''2''"] skip_world_def list_row_def
        status_row_def)

subsection \<open>Stations left out\<close>

lemma fold_pick_mem: "fold (pick better) rs a0 \<in> insert a0 (set rs)"
  by (induction rs arbitrary: a0) (auto simp: pick_def)

lemma readings_Cons:
  "readings self w now (s # ss) =
     (case snd (station_reading self w now s) of
        Inr (Some d) \<Rightarrow> d # readings self w now ss
      | _ \<Rightarrow> readings self w now ss)"
  by (simp add: readings_def map_filter_simps split: sum.splits option.splits)

lemma readings_Nil [simp]: "readings self w now [] = []"
  by (simp add: readings_def map_filter_simps)

lemma readings_without_old:
  "readings self w now (filter (\<lambda>s. \<not> older_than_2_days now s) ss) = readings self w now ss"
proof (induction ss)
  case Nil
  then show ?case by simp
next
  case (Cons s ss)
  show ?case
  proof (cases "older_than_2_days now s")
    case True
    from older_never_read [OF True, of self w] Cons.IH True show ?thesis
      by (simp add: readings_Cons split: sum.splits option.splits)
  next
    case False
    with Cons.IH show ?thesis by (simp add: readings_Cons split: sum.splits option.splits)
  qed
qed

lemma loop_extrema_mem:
  assumes "snd (station_loop self w now ss (a, b)) = Inr (hi, lo)"
  shows "hi \<in> insert a (set (readings self w now ss))"
    and "lo \<in> insert b (set (readings self w now ss))"
  using loop_result [OF assms] fold_pick_mem [of float_gt "readings self w now ss" a]
    fold_pick_mem [of float_lt "readings self w now ss" b]
  by (simp_all add: fold_update_extrema)

lemma run_trace:
  assumes "fetch_stations self w = (t0, Inr stations)"
  shows "\<exists>t1. fst (temperatures_parameter_2 self w) = t0 @ Now # t1 \<and> Now \<notin> set t0 \<and> Now \<notin> set t1"
proof -
  obtain t1 r where l: "station_loop self w (utc_now w) stations (sentinel_max, sentinel_min) = (t1, r)"
    by (cases "station_loop self w (utc_now w) stations (sentinel_max, sentinel_min)")
  have t1: "Now \<notin> set t1"
    using loop_trace_kind [of self w "utc_now w" stations "(sentinel_max, sentinel_min)"] l
    by (auto simp: is_request_or_log_def)
  have t0: "Now \<notin> set t0" using assms by (auto simp: fetch_stations_eq)
  have p: "Now \<notin> set (fst (print_report acc))" for acc
    by (cases acc) (auto simp: print_report_eq split: sum.splits)
  show ?thesis
  proof (cases r)
    case (Inl e)
    with l t0 t1 show ?thesis by (simp add: run_eq [OF assms])
  next
    case (Inr acc)
    with l t0 t1 p [of acc] show ?thesis by (simp add: run_eq [OF assms])
  qed
qed

lemma older_examples:
  "older_than_2_days run_instant (named_station k n (JInt 0))"
  "\<not> older_than_2_days run_instant (named_station k n just_updated)"
  "\<not> older_than_2_days 172801500000 (named_station k n (JInt 1500))"
  "rat_of_int 172801500000 - 1500 * 1000 = rat_of_int (2 * day_us)"
  by (simp_all add: older_than_2_days_def ms_value_def day_us_def run_instant_def just_updated_def)

lemma boundary_fetch:
  "fetch_stations default_parser boundary_world =
     ([Get (list_url default_parser)], Inr [named_station ''1'' ''A'' (JInt 1500)])"
  by (simp add: fetch_stations_eq boundary_world_def list_row_def ok_def sbind_def
        response_json_def sorted_by_key_def)

lemma boundary_update_td:
  "update_td 172801500000 (named_station ''1'' ''A'' (JInt 1500)) = Inr 172800500000"
  by (simp add: update_td_def sbind_def fromtimestamp_def)

lemma nameless_stale_fetch:
  "fetch_stations default_parser nameless_stale_world =
     ([Get (list_url default_parser)], Inr [station_rec ''1'' (JInt 0)])"
  by (simp add: fetch_stations_eq nameless_stale_world_def list_row_def ok_def sbind_def
        response_json_def sorted_by_key_def)

lemma nameless_body_fetch:
  "fetch_stations default_parser nameless_body_world =
     ([Get (list_url default_parser)], Inr [station_rec ''1'' just_updated])"
  by (simp add: fetch_stations_eq nameless_body_world_def list_row_def data_row_def ok_def sbind_def
        response_json_def sorted_by_key_def)

subsection \<open>Sorting and the catalog\<close>











lemma int_key_entry [simp]:
  "int_key (param_entry k t s) = (case int_of_str k of Inr i \<Rightarrow> i | Inl _ \<Rightarrow> 0)"
  by (simp add: int_key_def param_entry_def sbind_def)


lemma subscript_param_entry [simp]:
  "subscript (param_entry k t s) ''key'' = Inr (JStr k)"
  "subscript (param_entry k t s) ''title'' = Inr (JStr t)"
  "subscript (param_entry k t s) ''summary'' = Inr (JStr s)"
  by (simp_all add: param_entry_def)

subsection \<open>The extrema of a pass\<close>








lemma readings_append:
  "readings self w now (xs @ ys) = readings self w now xs @ readings self w now ys"
  by (simp add: readings_def List.map_filter_def)












subsection \<open>Evaluation of runs with readings\<close>


















lemma str_key_station_rec [simp]: "str_key (station_rec k u) = k"
  by (simp add: str_key_def str_field_def the_JStr_def)

subsection \<open>A pass without readings\<close>

text \<open>
  When the station list is fetched and every station of it is skipped (the list may be
  empty), the run returns and prints the two lines with the name \<^verbatim>\<open>N/A\<close> and the
  temperatures of the two accumulators as they were initialised: negative infinity for
  the maximum, positive infinity for the minimum.
\<close>

lemma no_reading_prints_sentinels:
  assumes "fetch_stations self w = (t0, Inr stations)"
      and "\<forall>s\<in>set stations. snd (station_reading self w (utc_now w) s) = Inr None"
  shows "snd (temperatures_parameter_2 self w) = Inr ()
       \<and> printed (fst (temperatures_parameter_2 self w)) =
           [''Highest temperature: N/A, -inf degrees'', ''Lowest temperature: N/A, inf degrees'']
       \<and> temp sentinel_max = NegInf \<and> name sentinel_max = JStr ''N/A''
       \<and> temp sentinel_min = PosInf \<and> name sentinel_min = JStr ''N/A''"
proof -
  from assms(2) have "\<forall>s\<in>set stations. \<exists>r. snd (station_reading self w (utc_now w) s) = Inr r"
    by simp
  from loop_returns [OF this] obtain acc where
    l: "snd (station_loop self w (utc_now w) stations (sentinel_max, sentinel_min)) = Inr acc"
    by blast
  have "readings self w (utc_now w) stations = []"
    using assms(2) by (induction stations) (simp_all add: readings_def map_filter_simps)
  with loop_result [OF l] have acc: "acc = (sentinel_max, sentinel_min)" by simp
  from run_returns [OF assms(1) l [unfolded acc], of "''N/A''" "''N/A''"]
  show ?thesis by simp
qed

text \<open>
  In \<open>skip_world\<close> the station of 1970 is skipped as stale and the fresh one has no data
  (404): the run prints the two placeholder lines.
\<close>

lemma no_reading_prints_sentinels_example:
  "fetch_stations default_parser skip_world =
     ([Get (list_url default_parser)],
      Inr [named_station ''1'' ''A'' (JInt 0), named_station ''2'' ''B'' just_updated])
   \<and> snd (station_reading default_parser skip_world (utc_now skip_world)
            (named_station ''1'' ''A'' (JInt 0))) = Inr None
   \<and> snd (station_reading default_parser skip_world (utc_now skip_world)
            (named_station ''2'' ''B'' just_updated)) = Inr None
   \<and> snd (temperatures_parameter_2 default_parser skip_world) = Inr ()
   \<and> printed (fst (temperatures_parameter_2 default_parser skip_world)) =
       [''Highest temperature: N/A, -inf degrees'', ''Lowest temperature: N/A, inf degrees'']"
proof -
  have now: "utc_now skip_world = run_instant" by (simp add: skip_world_def)
  have "\<forall>s\<in>set [named_station ''1'' ''A'' (JInt 0), named_station ''2'' ''B'' just_updated].
          snd (station_reading default_parser skip_world (utc_now skip_world) s) = Inr None"
    by (simp add: now skip_readings)
  from no_reading_prints_sentinels [OF skip_fetch this] show ?thesis
    by (simp add: skip_fetch now skip_readings)
qed

subsection \<open>Dependence on the world\<close>


lemma gsd_cong:
  assumes "\<forall>k. http_get w (data_url self k) = http_get w' (data_url self k)"
  shows "get_station_data self w s = get_station_data self w' s"
  using assms by (simp add: get_station_data_def make_request_eq data_url_def)

lemma station_reading_cong:
  assumes "\<forall>k. http_get w (data_url self k) = http_get w' (data_url self k)"
  shows "station_reading self w now s = station_reading self w' now s"
  by (simp add: station_reading_def gsd_cong [OF assms] cong: if_cong)

lemma station_loop_cong:
  assumes "\<forall>k. http_get w (data_url self k) = http_get w' (data_url self k)"
  shows "station_loop self w now ss acc = station_loop self w' now ss acc"
  by (induction ss arbitrary: acc) (simp_all add: station_reading_cong [OF assms])

section \<open>The claims\<close>

subsection \<open>C1: the extrema of distinct temperatures\<close>




subsection \<open>C2: ties\<close>




subsection \<open>C3: stale stations\<close>

text \<open>
  C3 as stated fails in its last part. The program compares \<open>now\<close> with the \<open>updated\<close>
  instant cut down to a whole second (\<^verbatim>\<open>updated // 1000\<close>), so a station counts as up to
  one second older than it is. In \<open>boundary_world\<close> the station was updated exactly two
  days before the run, its data is there, and it is skipped by the filter: the run
  prints the placeholder lines.
\<close>

theorem exactly_two_days_old_is_skipped:
  "rat_of_int (utc_now boundary_world) - 1500 * 1000 = rat_of_int (2 * day_us)
   \<and> fetch_stations default_parser boundary_world =
       ([Get (list_url default_parser)], Inr [named_station ''1'' ''A'' (JInt 1500)])
   \<and> station_reading default_parser boundary_world (utc_now boundary_world)
        (named_station ''1'' ''A'' (JInt 1500))
       = ([Log DEBUG stale_msg [Val (JStr ''A''), Val (JInt 2)]], Inr None)
   \<and> temperatures_parameter_2 default_parser boundary_world =
       ([Get (list_url default_parser), Now,
         Log DEBUG stale_msg [Val (JStr ''A''), Val (JInt 2)],
         Print ''Highest temperature: N/A, -inf degrees'',
         Print ''Lowest temperature: N/A, inf degrees''], Inr ())"
proof -
  have now: "utc_now boundary_world = 172801500000" by (simp add: boundary_world_def)
  have r: "station_reading default_parser boundary_world 172801500000
             (named_station ''1'' ''A'' (JInt 1500))
           = ([Log DEBUG stale_msg [Val (JStr ''A''), Val (JInt 2)]], Inr None)"
    by (simp add: station_reading_stale [OF boundary_update_td] day_us_def)
  show ?thesis
    by (simp add: now r boundary_fetch run_eq [OF boundary_fetch] day_us_def ret_def
          print_report_eq report_line_def sbind_def)
qed

text \<open>
  C3, amended. When the station list is fetched:
  \<^item> the clock is read once, after the list is fetched and before anything the loop
    does;
  \<^item> for a station whose \<open>updated\<close> instant lies more than two days before that one
    reading, no request is sent and no reading is returned, and with a name in its
    record it is skipped after one debug call;
  \<^item> the two accumulators the loop returns are the initial ones or readings of stations
    that are not that old;
  \<^item> a station whose \<open>updated\<close> instant, cut down to a whole second, is two days old or
    newer is not skipped by the filter: its data is fetched.
\<close>

theorem stale_stations_are_skipped:
  assumes "fetch_stations self w = (t0, Inr stations)"
  shows "(\<exists>t1. fst (temperatures_parameter_2 self w) = t0 @ Now # t1
               \<and> Now \<notin> set t0 \<and> Now \<notin> set t1)
       \<and> (\<forall>s\<in>set stations. older_than_2_days (utc_now w) s \<longrightarrow>
            (\<forall>u. Get u \<notin> set (fst (station_reading self w (utc_now w) s)))
          \<and> (\<forall>d. snd (station_reading self w (utc_now w) s) \<noteq> Inr (Some d))
          \<and> (\<forall>n td. subscript s ''name'' = Inr n \<and> update_td (utc_now w) s = Inr td \<longrightarrow>
               station_reading self w (utc_now w) s
                 = ([Log DEBUG stale_msg [Val n, Val (JInt (td div day_us))]], Inr None)))
       \<and> (\<forall>hi lo. snd (station_loop self w (utc_now w) stations (sentinel_max, sentinel_min))
                     = Inr (hi, lo) \<longrightarrow>
            hi \<in> insert sentinel_max (set (readings self w (utc_now w)
                    (filter (\<lambda>s. \<not> older_than_2_days (utc_now w) s) stations)))
          \<and> lo \<in> insert sentinel_min (set (readings self w (utc_now w)
                    (filter (\<lambda>s. \<not> older_than_2_days (utc_now w) s) stations))))
       \<and> (\<forall>s\<in>set stations. \<forall>td. update_td (utc_now w) s = Inr td \<and> td \<le> 2 * day_us \<longrightarrow>
            station_reading self w (utc_now w) s = get_station_data self w s)"
proof (intro conjI ballI allI impI)
  show "\<exists>t1. fst (temperatures_parameter_2 self w) = t0 @ Now # t1 \<and> Now \<notin> set t0 \<and> Now \<notin> set t1"
    using assms by (rule run_trace)
next
  fix s u assume "older_than_2_days (utc_now w) s"
  then show "Get u \<notin> set (fst (station_reading self w (utc_now w) s))"
    using older_never_read by blast
next
  fix s d assume "older_than_2_days (utc_now w) s"
  then show "snd (station_reading self w (utc_now w) s) \<noteq> Inr (Some d)"
    using older_never_read by blast
next
  fix s n td
  assume old: "older_than_2_days (utc_now w) s"
    and "subscript s ''name'' = Inr n \<and> update_td (utc_now w) s = Inr td"
  then have n: "subscript s ''name'' = Inr n" and td: "update_td (utc_now w) s = Inr td" by simp_all
  from older_update_td [OF old td] td n
  show "station_reading self w (utc_now w) s
          = ([Log DEBUG stale_msg [Val n, Val (JInt (td div day_us))]], Inr None)"
    by (simp add: station_reading_stale)
next
  fix hi lo
  assume l: "snd (station_loop self w (utc_now w) stations (sentinel_max, sentinel_min)) = Inr (hi, lo)"
  from loop_extrema_mem(1) [OF l]
  show "hi \<in> insert sentinel_max (set (readings self w (utc_now w)
                    (filter (\<lambda>s. \<not> older_than_2_days (utc_now w) s) stations)))"
    by (simp only: readings_without_old)
  from loop_extrema_mem(2) [OF l]
  show "lo \<in> insert sentinel_min (set (readings self w (utc_now w)
                    (filter (\<lambda>s. \<not> older_than_2_days (utc_now w) s) stations)))"
    by (simp only: readings_without_old)
next
  fix s td
  assume "update_td (utc_now w) s = Inr td \<and> td \<le> 2 * day_us"
  then show "station_reading self w (utc_now w) s = get_station_data self w s"
    by (simp add: station_reading_fresh)
qed

text \<open>
  In \<open>skip_world\<close> the station of 1970 is skipped without a request and the data of
  the fresh station is fetched.
\<close>

theorem stale_stations_are_skipped_witness:
  "fetch_stations default_parser skip_world =
     ([Get (list_url default_parser)],
      Inr [named_station ''1'' ''A'' (JInt 0), named_station ''2'' ''B'' just_updated])
   \<and> older_than_2_days (utc_now skip_world) (named_station ''1'' ''A'' (JInt 0))
   \<and> station_reading default_parser skip_world (utc_now skip_world) (named_station ''1'' ''A'' (JInt 0))
       = ([Log DEBUG stale_msg [Val (JStr ''A''), Val (JInt 19675)]], Inr None)
   \<and> update_td (utc_now skip_world) (named_station ''2'' ''B'' just_updated) = Inr 0
   \<and> station_reading default_parser skip_world (utc_now skip_world) (named_station ''2'' ''B'' just_updated)
       = get_station_data default_parser skip_world (named_station ''2'' ''B'' just_updated)
   \<and> (\<exists>t1. fst (temperatures_parameter_2 default_parser skip_world)
              = [Get (list_url default_parser)] @ Now # t1 \<and> Now \<notin> set t1)"
proof -
  have now: "utc_now skip_world = run_instant" by (simp add: skip_world_def)
  from stale_stations_are_skipped [OF skip_fetch] show ?thesis
    by (simp add: skip_fetch now older_examples update_td_examples day_us_def)
qed

subsection \<open>C4: what get_station_data returns\<close>




subsection \<open>C5: failures of one station\<close>

text \<open>
  C5 asks that a failure of one station, a record or a response without \<^verbatim>\<open>name\<close>
  included, is skipped and never stops the scan. The program does not do this. A stale
  station whose record has no \<^verbatim>\<open>name\<close> raises KeyError in the arguments of the debug
  call (line 122), and a response whose \<^verbatim>\<open>station\<close> object has no \<^verbatim>\<open>name\<close> raises
  KeyError at line 69, before the \<^verbatim>\<open>try\<close>; either ends the run before a line is
  printed.
\<close>

theorem missing_name_aborts_run:
  "temperatures_parameter_2 default_parser nameless_stale_world
     = ([Get (list_url default_parser), Now], Inl KeyError)
   \<and> temperatures_parameter_2 default_parser nameless_body_world
     = ([Get (list_url default_parser), Now, Get (data_url default_parser ''1'')], Inl KeyError)"
proof -
  have a: "utc_now nameless_stale_world = run_instant" "utc_now nameless_body_world = run_instant"
    by (simp_all add: nameless_stale_world_def nameless_body_world_def)
  have r1: "station_reading default_parser nameless_stale_world run_instant (station_rec ''1'' (JInt 0))
              = ([], Inl KeyError)"
    by (simp add: station_reading_stale [OF update_td_examples(4)] day_us_def)
  have r2: "station_reading default_parser nameless_body_world run_instant (station_rec ''1'' just_updated)
              = ([Get (data_url default_parser ''1'')], Inl KeyError)"
    by (simp add: station_reading_fresh [OF update_td_examples(2)] day_us_def
          gsd_no_name [where k = "''1''" and kj = "JStr ''1''" and e = KeyError]
          nameless_body_world_def list_row_def data_row_def ok_def sbind_def)
  show ?thesis
    by (simp add: a r1 r2 run_eq [OF nameless_stale_fetch] run_eq [OF nameless_body_fetch])
qed

subsection \<open>C6: a run without readings\<close>

text \<open>
  C6 asks that a run in which no station yields a reading, every station being stale
  or unreadable, does not fail and prints the two lines with the name \<^verbatim>\<open>N/A\<close> and the
  infinite temperatures of the initial accumulators. The program does so whenever every
  station is skipped (\<open>no_reading_prints_sentinels\<close>). It does not when a stale station
  has no \<^verbatim>\<open>name\<close> in its record: in \<open>nameless_stale_world\<close> the only station is more
  than two days old, no station yields a reading, and the run ends with KeyError
  before a line is printed. This is the defect of C5, at line 122.
\<close>

theorem stale_station_without_name_fails:
  "fetch_stations default_parser nameless_stale_world
     = ([Get (list_url default_parser)], Inr [station_rec ''1'' (JInt 0)])
   \<and> older_than_2_days (utc_now nameless_stale_world) (station_rec ''1'' (JInt 0))
   \<and> readings default_parser nameless_stale_world (utc_now nameless_stale_world)
         [station_rec ''1'' (JInt 0)] = []
   \<and> snd (temperatures_parameter_2 default_parser nameless_stale_world) = Inl KeyError
   \<and> printed (fst (temperatures_parameter_2 default_parser nameless_stale_world)) = []"
proof -
  have now: "utc_now nameless_stale_world = run_instant"
    by (simp add: nameless_stale_world_def)
  have old: "older_than_2_days run_instant (station_rec ''1'' (JInt 0))"
    by (simp add: older_than_2_days_def ms_value_def day_us_def run_instant_def)
  have r: "station_reading default_parser nameless_stale_world run_instant (station_rec ''1'' (JInt 0))
              = ([], Inl KeyError)"
    by (simp add: station_reading_stale [OF update_td_examples(4)] day_us_def)
  show ?thesis
    by (simp add: now old r nameless_stale_fetch run_eq [OF nameless_stale_fetch] readings_Cons)
qed

subsection \<open>C7: the parameter catalog\<close>




subsection \<open>C8: the same snapshot gives the same output\<close>

text \<open>
  C8. Two worlds that give the same instant, the same response for the station list and
  the same response for the data of every station key give the same run: the same
  trace, hence the same printed lines, and the same result. The worlds may differ on
  every other URL.
\<close>

theorem same_snapshot_same_output:
  assumes "utc_now w = utc_now w'"
      and "http_get w (list_url self) = http_get w' (list_url self)"
      and "\<forall>k. http_get w (data_url self k) = http_get w' (data_url self k)"
  shows "temperatures_parameter_2 self w = temperatures_parameter_2 self w'"
  using assms(1,2)
  by (simp add: temperatures_parameter_2_def fetch_stations_eq station_loop_cong [OF assms(3)])

text \<open>\<open>skip_world'\<close> answers one more URL than \<open>skip_world\<close>; the runs agree.\<close>

theorem same_snapshot_same_output_witness:
  "utc_now skip_world = utc_now skip_world'
   \<and> http_get skip_world (list_url default_parser) = http_get skip_world' (list_url default_parser)
   \<and> (\<forall>k. http_get skip_world (data_url default_parser k)
            = http_get skip_world' (data_url default_parser k))
   \<and> http_get skip_world [] \<noteq> http_get skip_world' []
   \<and> temperatures_parameter_2 default_parser skip_world
       = temperatures_parameter_2 default_parser skip_world'"
proof -
  have a: "utc_now skip_world = utc_now skip_world'"
    by (simp add: skip_world_def skip_world'_def)
  have b: "http_get skip_world (list_url default_parser) = http_get skip_world' (list_url default_parser)"
    by (simp add: skip_world_def skip_world'_def list_row_def)
  have c: "\<forall>k. http_get skip_world (data_url default_parser k)
            = http_get skip_world' (data_url default_parser k)"
    by (simp add: skip_world_def skip_world'_def list_row_def status_row_def)
  have d: "http_get skip_world [] \<noteq> http_get skip_world' []"
    by (simp add: skip_world_def skip_world'_def list_row_def status_row_def ok_def)
  from same_snapshot_same_output [OF a b c] a b c d show ?thesis by blast
qed

subsection \<open>C9: lowest and highest\<close>




subsection \<open>C10: the identity of a reading\<close>

text \<open>
  C10. The reading's \<open>key\<close>, \<open>name\<close> and \<open>station\<close> are those of the \<^verbatim>\<open>station\<close> object
  of the response body, and of the argument only the \<^verbatim>\<open>key\<close> entry matters: two
  arguments with the same key give the same run.
\<close>

theorem reading_identity_from_response:
  "(\<forall>d. snd (get_station_data self w s) = Inr (Some d) \<longrightarrow>
      (\<exists>kj k r b st. subscript s ''key'' = Inr kj \<and> py_str kj = Inr k
          \<and> http_get w (data_url self k) = Inr r \<and> body r = Some b
          \<and> subscript b ''station'' = Inr st
          \<and> station d = st \<and> subscript st ''key'' = Inr (key d)
          \<and> subscript st ''name'' = Inr (name d)))
   \<and> (\<forall>s'. subscript s' ''key'' = subscript s ''key'' \<longrightarrow>
         get_station_data self w s' = get_station_data self w s)"
proof (intro conjI allI impI)
  fix d
  assume "snd (get_station_data self w s) = Inr (Some d)"
  then show "\<exists>kj k r b st. subscript s ''key'' = Inr kj \<and> py_str kj = Inr k
          \<and> http_get w (data_url self k) = Inr r \<and> body r = Some b
          \<and> subscript b ''station'' = Inr st
          \<and> station d = st \<and> subscript st ''key'' = Inr (key d)
          \<and> subscript st ''name'' = Inr (name d)"
    by (auto simp: gsd_Some_iff)
next
  fix s'
  assume "subscript s' ''key'' = subscript s ''key''"
  then show "get_station_data self w s' = get_station_data self w s"
    by (simp add: get_station_data_def)
qed

text \<open>
  Asked for station 1, \<open>mismatch_world\<close> answers with station 2: the reading is station
  2, whatever else the argument holds.
\<close>

theorem reading_identity_from_response_witness:
  "subscript (JObj [(''key'', JStr ''1''), (''name'', JStr ''A'')]) ''key''
     = subscript (JObj [(''key'', JStr ''1'')]) ''key''
   \<and> get_station_data default_parser mismatch_world (JObj [(''key'', JStr ''1''), (''name'', JStr ''A'')])
     = get_station_data default_parser mismatch_world (JObj [(''key'', JStr ''1'')])
   \<and> snd (get_station_data default_parser mismatch_world (JObj [(''key'', JStr ''1'')]))
     = Inr (Some \<lparr>key = JStr ''2'', name = JStr ''B'', temp = Finite 5,
                   station = JObj [(''key'', JStr ''2''), (''name'', JStr ''B'')]\<rparr>)"
  using reading_identity_from_response [of default_parser mismatch_world "JObj [(''key'', JStr ''1'')]"]
  by (simp add: gsd_reading [where k = "''1''" and kj = "JStr ''1''"] mismatch_world_def ok_def
        data_row_def float_of_str_examples)

end
